theory Spec2Isabelle
  imports Main
begin

section \<open>JavaScript values\<close>

text \<open>
  The library is TypeScript compiled to JavaScript.  Only the values that the modelled
  methods inspect are represented.  A number is an integer or \<open>NaN\<close> (ids and the id
  counter never hold anything else; integers are exact, which a double is below
  \<open>2\<^sup>5\<^sup>3\<close>); a function value is identified by a tag and carries its declared
  \<open>length\<close>; strings are character lists.
\<close>

datatype jsnum = Num int | NaN

datatype jsval =
    Undefined
  | Null
  | Bool bool
  | Str string
  | Number jsnum
  | StrArray "string list"
  | Func nat nat
  | Stream nat

fun truthy :: "jsval \<Rightarrow> bool" where
  "truthy Undefined = False"
| "truthy Null = False"
| "truthy (Bool b) = b"
| "truthy (Str s) = (s \<noteq> [])"
| "truthy (Number (Num n)) = (n \<noteq> 0)"
| "truthy (Number NaN) = False"
| "truthy (StrArray xs) = True"
| "truthy (Func f n) = True"
| "truthy (Stream n) = True"

datatype error = TypeError | Error string

text \<open>
  A method either returns or throws; in both cases the state it has reached so far is
  kept, because JavaScript mutations made before a \<open>throw\<close> stay visible.
\<close>

datatype 'a outcome = Returns 'a | Throws error 'a

subsection \<open>Strings\<close>

definition startsWith :: "string \<Rightarrow> string \<Rightarrow> bool" where
  "startsWith c line = (take (length line) c = line)"

definition lower_char :: "char \<Rightarrow> char" where
  "lower_char c =
     (if (65::nat) \<le> of_char c \<and> of_char c \<le> (90::nat)
      then char_of (of_char c + (32::nat)) else c)"

definition upper_char :: "char \<Rightarrow> char" where
  "upper_char c =
     (if (97::nat) \<le> of_char c \<and> of_char c \<le> (122::nat)
      then char_of (of_char c - (32::nat)) else c)"

definition toLowerCase :: "string \<Rightarrow> string" where
  "toLowerCase s = map lower_char s"

text \<open>\<open>s.repeat(n)\<close>.\<close>

definition repeat :: "string \<Rightarrow> nat \<Rightarrow> string" where
  "repeat s n = concat (replicate n s)"

text \<open>\<open>s.slice(0, e)\<close>: a negative end counts from the end of the string.\<close>

definition slice0 :: "string \<Rightarrow> int \<Rightarrow> string" where
  "slice0 s e =
     (let n = int (length s);
          to = (if e < 0 then max (n + e) 0 else min e n)
      in take (nat to) s)"

text \<open>Decimal rendering of a number, as \<open>ToString\<close> gives it for integers.\<close>

fun nat_to_string :: "nat \<Rightarrow> string" where
  "nat_to_string n =
     (if n < 10 then [char_of (48 + n)]
      else nat_to_string (n div 10) @ [char_of (48 + n mod 10)])"

definition num_to_string :: "jsnum \<Rightarrow> string" where
  "num_to_string x =
     (case x of
        NaN \<Rightarrow> ''NaN''
      | Num i \<Rightarrow> (if i < 0 then CHR ''-'' # nat_to_string (nat (- i)) else nat_to_string (nat i)))"

text \<open>String comparison by code units, as the default sort comparator uses it.\<close>

fun str_less :: "string \<Rightarrow> string \<Rightarrow> bool" where
  "str_less [] [] = False"
| "str_less [] (y # ys) = True"
| "str_less (x # xs) [] = False"
| "str_less (x # xs) (y # ys) =
     (if (of_char x :: nat) < of_char y then True
      else if (of_char y :: nat) < of_char x then False
      else str_less xs ys)"

section \<open>Completion resolver\<close>

text \<open>
  The completion source is \<open>string[] | CompletionsHandler\<close> or absent.  A function
  source is given by its declared \<open>length\<close>, by what it returns when called with the
  line alone, and by the \<open>(err, comps)\<close> it hands to a node-style callback.
\<close>

datatype completer =
    NoCompleter
  | CompleterList "string list"
  | CompleterFn nat "string \<Rightarrow> string list" "string \<Rightarrow> string option \<times> string list"

text \<open>
  What a resolver does with a line: it returns the pair \<open>[completions, line]\<close>, passes
  that pair to the callback it was given, or throws the source's error.
\<close>

datatype completion =
    Returned "string list" string
  | CalledBack "string list" string
  | Raised string

definition filter_comps :: "string \<Rightarrow> string list \<Rightarrow> string list" where
  "filter_comps line comps = filter (\<lambda>c. startsWith c line) comps"

definition completerAsync :: "completer \<Rightarrow> string \<Rightarrow> completion" where
  "completerAsync completer line =
     (case completer of
        CompleterFn n sync async \<Rightarrow>
          (case async line of
             (Some err, comps) \<Rightarrow> Raised err
           | (None, comps) \<Rightarrow> CalledBack (filter_comps line comps) line)
      | CompleterList cs \<Rightarrow> Raised ''completer is not a function''
      | NoCompleter \<Rightarrow> Raised ''completer is not a function'')"

definition completerSync :: "completer \<Rightarrow> string \<Rightarrow> completion" where
  "completerSync completer line =
     (case completer of
        CompleterFn n sync async \<Rightarrow> Returned (filter_comps line (sync line)) line
      | CompleterList cs \<Rightarrow> Returned (filter_comps line cs) line
      | NoCompleter \<Rightarrow> Raised ''completer is not iterable'')"

definition completionHandler :: "completer \<Rightarrow> string \<Rightarrow> completion" where
  "completionHandler completer =
     (case completer of
        NoCompleter \<Rightarrow> (\<lambda>l. Returned [] l)
      | CompleterList cs \<Rightarrow>
          (if cs = [] then (\<lambda>l. Returned [] l) else completerSync completer)
      | CompleterFn n sync async \<Rightarrow>
          (if n = 1 then completerSync completer else completerAsync completer))"

section \<open>Session options\<close>

text \<open>
  \<open>this.options\<close> is a plain object read by key; a key that is not set reads as
  \<open>undefined\<close>.
\<close>

type_synonym options = "string \<Rightarrow> jsval"

text \<open>
  Modelled from the spec: \<open>extend\<close> (here \<open>extend_obj\<close>) is imported from the package \<open>chek\<close>, which is not
  among the sources.  The spec describes it as an object-merging helper with which the
  setter "shallow-merges new values": every key of each source object is assigned to the
  target, later sources winning.
\<close>

definition extend_obj :: "options \<Rightarrow> (string \<times> jsval) list \<Rightarrow> options" where
  "extend_obj target obj = foldl (\<lambda>t kv. t(fst kv := snd kv)) target obj"

definition DEFAULTS :: "(string \<times> jsval) list" where
  "DEFAULTS =
     [(''name'', Str ''Inquir''),
      (''input'', Stream 0),
      (''output'', Stream 1),
      (''delim'', Null),
      (''delimStyle'', StrArray [''cyan'', ''dim'']),
      (''promptDelim'', Str ''[?]''),
      (''promptDelimStyle'', StrArray [''yellow'', ''dim'']),
      (''colorize'', Bool True),
      (''completer'', Null),
      (''onInput'', Null),
      (''onLog'', Null),
      (''onError'', Null)]"

section \<open>The Inquir instance and its environment\<close>

datatype EventState = EMERGENCY | ERROR | WARNING | INFO | EXIT

text \<open>
  Styled text: \<open>Ansi val styles\<close> stands for \<open>this._colurs.applyAnsi(val, styles)\<close>,
  whose rendering belongs to the package \<open>colurs\<close>.
\<close>

datatype chunk = Plain string | Ansi jsval jsval

type_synonym styled = "chunk list"

datatype logval = LEvent EventState | LStr string

text \<open>
  Everything the methods do to the terminal, the process and the caller's handlers is
  recorded, in order, as a trace of effects.
\<close>

datatype effect =
    ConsoleLog "styled list"
  | OnLog "logval list"
  | EmitKeypressEvents
  | ProcessOn string EventState
  | ProcessRemoveListener string
  | CreateInterface
  | SetRawMode bool
  | RlSetPrompt styled
  | RlPrompt
  | RlQuestion string
  | RlWriteEOL
  | RlOn string
  | ReadlineClearLine int
  | ReadlineCursorTo nat
  | OutputWrite string
  | OpenStdin
  | StdinOn string
  | StdinRemoveListener string

type_synonym addr = nat

text \<open>
  The value of a \<open>name\<close>: a string, the definition object itself (when \<open>add\<close> is
  called with a bare definition), or nothing.
\<close>

datatype pname = NoName | NameStr string | NameObj addr

text \<open>
  A \<open>validate\<close> value.  The interface declares a function; a thenable can be passed as
  well and is what \<open>toPromise\<close> tests for.  The reason of a rejection is a string.
\<close>

datatype settled = Resolves jsval | Rejects string

datatype validator = ValidateFn nat | ValidateThenable settled

text \<open>A question definition (\<open>IPromptInternal\<close>); \<open>id\<close> is undefined until it is added.\<close>

record prompt =
  p_id :: "jsnum option"
  p_name :: pname
  p_type :: "string option"
  p_message :: string
  p_validate :: "validator option"

text \<open>
  The instance fields (\<open>options\<close>, \<open>_initialized\<close>, \<open>_eventsEnabled\<close>, \<open>_prompts\<close>,
  \<open>rl\<close>) together with the part of the environment the methods touch: the objects
  the stored references point to, \<open>process.stdin.isTTY\<close>, and the trace.  \<open>_prompts\<close> is
  a \<open>Map\<close>: keys in insertion order, each bound to an object reference.
\<close>

record inquir =
  options :: options
  initialized :: bool
  eventsEnabled :: bool
  prompts_map :: "(string \<times> addr) list"
  rl :: bool
  heap :: "addr \<Rightarrow> prompt"
  isTTY :: bool
  trace :: "effect list"

definition emit :: "effect list \<Rightarrow> inquir \<Rightarrow> inquir" where
  "emit es st = st\<lparr>trace := trace st @ es\<rparr>"

definition new_prompt :: prompt where
  "new_prompt = \<lparr>p_id = None, p_name = NoName, p_type = None, p_message = [], p_validate = None\<rparr>"

text \<open>
  The constructor: defaults merged with the caller's options; the delimiter defaults to
  the lower-cased name followed by \<open>> \<close>.
\<close>

definition Inquir :: "(string \<times> jsval) list \<Rightarrow> bool \<Rightarrow> error + inquir" where
  "Inquir opts tty =
     (let os = extend_obj (extend_obj (\<lambda>k. Undefined) DEFAULTS) opts in
      if truthy (os ''delim'') then
        Inr \<lparr>options = os, initialized = False, eventsEnabled = False, prompts_map = [],
             rl = False, heap = (\<lambda>a. new_prompt), isTTY = tty, trace = []\<rparr>
      else
        (case os ''name'' of
           Str n \<Rightarrow>
             Inr \<lparr>options = os(''delim'' := Str (toLowerCase n @ ''> '')), initialized = False,
                  eventsEnabled = False, prompts_map = [], rl = False,
                  heap = (\<lambda>a. new_prompt), isTTY = tty, trace = []\<rparr>
         | _ \<Rightarrow> Inl TypeError))"

subsection \<open>Options\<close>

definition getOption :: "inquir \<Rightarrow> string \<Rightarrow> jsval" where
  "getOption st key = options st key"

text \<open>\<open>setOption\<close> takes a key and a value, or an options object.\<close>

datatype optkey = Key string | Opts "(string \<times> jsval) list"

definition setOption :: "inquir \<Rightarrow> optkey \<Rightarrow> jsval \<Rightarrow> inquir" where
  "setOption st key val =
     (let obj = (case key of Opts os \<Rightarrow> os | Key k \<Rightarrow> [(k, val)])
      in st\<lparr>options := extend_obj (options st) obj\<rparr>)"

subsection \<open>Logging\<close>

definition EventState_name :: "EventState \<Rightarrow> string" where
  "EventState_name e =
     (case e of EMERGENCY \<Rightarrow> ''EMERGENCY'' | ERROR \<Rightarrow> ''ERROR'' | WARNING \<Rightarrow> ''WARNING''
      | INFO \<Rightarrow> ''INFO'' | EXIT \<Rightarrow> ''EXIT'')"

text \<open>\<open>this._styles[label.toLowerCase()]\<close> for the five labels.\<close>

definition styles :: "EventState \<Rightarrow> jsval" where
  "styles e =
     (case e of EMERGENCY \<Rightarrow> StrArray [''red'', ''bold''] | ERROR \<Rightarrow> StrArray [''red'', ''dim'']
      | WARNING \<Rightarrow> StrArray [''yellow'', ''dim''] | INFO \<Rightarrow> StrArray [''green'', ''dim'']
      | EXIT \<Rightarrow> StrArray [''cyan'', ''dim''])"

definition colorize :: "jsval \<Rightarrow> jsval \<Rightarrow> styled" where
  "colorize val sty = [Ansi val sty]"

text \<open>
  \<open>logger.bind(this, e)(msg)\<close>, the shape of \<open>this.log().warn(msg)\<close> and
  \<open>this.log().error(err)\<close>, for a string \<open>msg\<close>: the call goes to \<open>options.onLog\<close> when
  that is set; otherwise the label of the event is styled and printed in front of the
  message.  With a single string the formatter returns the string.
\<close>

definition logger :: "inquir \<Rightarrow> EventState \<Rightarrow> string \<Rightarrow> inquir" where
  "logger st e msg =
     (if truthy (options st ''onLog'') then emit [OnLog [LEvent e, LStr msg]] st
      else emit [ConsoleLog [colorize (Str (EventState_name e)) (styles e) @ [Plain '':''],
                             [Plain msg]]] st)"

text \<open>
  \<open>this.log(msg)\<close> with one string: the first argument is looked up in \<open>EventState\<close>.
  The reverse mapping of the enum turns the names \<open>ERROR\<close>, \<open>WARNING\<close>, \<open>INFO\<close> and
  \<open>EXIT\<close> into non-zero numbers, on which \<open>toLowerCase\<close> is not a function; any other
  string is printed without a label (\<open>wrap\<close> is dropped).
\<close>

definition log_message :: "inquir \<Rightarrow> string \<Rightarrow> inquir outcome" where
  "log_message st msg =
     (if truthy (options st ''onLog'') then Returns (emit [OnLog [LStr msg]] st)
      else if msg \<in> set [''ERROR'', ''WARNING'', ''INFO'', ''EXIT''] then Throws TypeError st
      else Returns (emit [ConsoleLog [[Plain (if msg = ''wrap'' then [] else msg)]]] st))"

subsection \<open>Readline set-up and the delimiter\<close>

text \<open>\<open>toggleExceptions()\<close> with the default events.\<close>

definition toggleExceptions :: "inquir \<Rightarrow> inquir" where
  "toggleExceptions st =
     (let events = [''exit'', ''uncaughtException''] in
      if \<not> eventsEnabled st then
        (emit (map (\<lambda>e. if e \<noteq> ''uncaughtException'' then ProcessOn e EXIT
                          else ProcessOn e EMERGENCY) events) st)\<lparr>eventsEnabled := True\<rparr>
      else emit (map ProcessRemoveListener events) st)"

definition init :: "inquir \<Rightarrow> inquir" where
  "init st =
     (if initialized st then st
      else
        (let st1 = emit [EmitKeypressEvents] st;
             st2 = toggleExceptions st1;
             st3 = (emit [CreateInterface] st2)\<lparr>rl := True\<rparr>
         in if isTTY st3 then emit [SetRawMode True] st3 else st3))"

text \<open>
  \<open>setDelim()\<close> without an argument: the delimiter is \<open>options.delim\<close>.  Reading
  \<open>setPrompt\<close> from an interface that does not exist throws.
\<close>

definition setDelim :: "inquir \<Rightarrow> inquir outcome" where
  "setDelim st =
     (if \<not> rl st then Throws TypeError st
      else Returns (emit [RlSetPrompt (colorize (options st ''delim'') (options st ''delimStyle'')),
                          RlPrompt] st))"

text \<open>
  \<open>clearLine(newline)\<close>: an end of line is written through the interface first when
  \<open>newline\<close> is true.
\<close>

definition clearLine :: "inquir \<Rightarrow> bool \<Rightarrow> inquir outcome" where
  "clearLine st newline =
     (if newline \<and> \<not> rl st then Throws TypeError st
      else Returns (emit ((if newline then [RlWriteEOL] else [])
                          @ [ReadlineClearLine 0, ReadlineCursorTo 0]) st))"

subsection \<open>Listening for input lines\<close>



section \<open>Question registry\<close>

text \<open>
  \<open>prompts(namespace)\<close> returns a handle: a set of closures over the namespace and over
  a private counter \<open>ctr\<close> (\<open>None\<close> is \<open>undefined\<close>).  All handles share the one
  \<open>_prompts\<close> map of the instance.
\<close>

record registry =
  namespace :: string
  ctr :: "jsnum option"

text \<open>How a name is rendered inside the template literal of \<open>toNamespace\<close>.\<close>

definition name_string :: "pname \<Rightarrow> string" where
  "name_string key =
     (case key of NoName \<Rightarrow> ''undefined'' | NameStr s \<Rightarrow> s | NameObj a \<Rightarrow> ''[object Object]'')"

definition toNamespace :: "string \<Rightarrow> pname \<Rightarrow> string" where
  "toNamespace ns key = ns @ '':'' @ name_string key"

text \<open>\<open>Map.prototype.set\<close> keeps the position of a key that is already present.\<close>

fun map_set :: "(string \<times> addr) list \<Rightarrow> string \<Rightarrow> addr \<Rightarrow> (string \<times> addr) list" where
  "map_set [] k v = [(k, v)]"
| "map_set ((k', v') # m) k v =
     (if k' = k then (k', v) # m else (k', v') # map_set m k v)"

definition map_delete :: "(string \<times> addr) list \<Rightarrow> string \<Rightarrow> (string \<times> addr) list" where
  "map_delete m k = filter (\<lambda>kv. fst kv \<noteq> k) m"


definition regexp_test :: "string \<Rightarrow> string \<Rightarrow> bool" where
  "regexp_test ns k = (map upper_char (take (length ns) k) = map upper_char ns)"

definition exists :: "inquir \<Rightarrow> registry \<Rightarrow> string \<Rightarrow> bool" where
  "exists st h name = (map_of (prompts_map st) (toNamespace (namespace h) (NameStr name)) \<noteq> None)"

definition get :: "inquir \<Rightarrow> registry \<Rightarrow> string \<Rightarrow> addr option" where
  "get st h name = map_of (prompts_map st) (toNamespace (namespace h) (NameStr name))"

definition getAll :: "inquir \<Rightarrow> registry \<Rightarrow> addr list" where
  "getAll st h =
     List.map_filter (map_of (prompts_map st))
       (filter (regexp_test (namespace h)) (map fst (prompts_map st)))"

text \<open>\<open>p.id === id\<close>: \<open>undefined\<close> and \<open>NaN\<close> are equal to no number.\<close>

definition strict_eq :: "jsnum option \<Rightarrow> jsnum \<Rightarrow> bool" where
  "strict_eq x y = (case (x, y) of (Some (Num a), Num b) \<Rightarrow> a = b | _ \<Rightarrow> False)"

definition getById :: "inquir \<Rightarrow> registry \<Rightarrow> jsnum \<Rightarrow> addr option" where
  "getById st h i =
     (case filter (\<lambda>a. strict_eq (p_id (heap st a)) i) (getAll st h) of
        [] \<Rightarrow> None
      | a # _ \<Rightarrow> Some a)"

text \<open>\<open>ctr += 1\<close>: \<open>undefined + 1\<close> is \<open>NaN\<close>.\<close>

definition plus_one :: "jsnum option \<Rightarrow> jsnum" where
  "plus_one c = (case c of Some (Num n) \<Rightarrow> Num (n + 1) | _ \<Rightarrow> NaN)"

text \<open>
  \<open>add(name, prompt)\<close>.  The definition object is mutated in place and the map stores a
  reference to it.  With a string name and no definition the assignment to \<open>_prompt.id\<close>
  throws after the counter has been incremented.
\<close>

definition add :: "inquir \<Rightarrow> registry \<Rightarrow> pname \<Rightarrow> addr option \<Rightarrow> (inquir \<times> registry) outcome" where
  "add st h name prompt =
     (let p = (case name of NameObj a \<Rightarrow> Some a | _ \<Rightarrow> prompt) in
      if name = NoName \<or> name = NameStr [] then
        Returns (logger st WARNING ''unable to add prompt using name of undefined.'', h)
      else
        (let nextId = plus_one (ctr h);
             h' = h\<lparr>ctr := Some nextId\<rparr>
         in case p of
              None \<Rightarrow> Throws TypeError (st, h')
            | Some a \<Rightarrow>
                (let q = heap st a;
                     q' = q\<lparr>p_id := Some nextId, p_name := name,
                            p_type := (case p_type q of None \<Rightarrow> Some ''string''
                                       | Some t \<Rightarrow> if t = [] then Some ''string'' else Some t)\<rparr>
                 in Returns (st\<lparr>heap := (heap st)(a := q'),
                                 prompts_map := map_set (prompts_map st)
                                                  (toNamespace (namespace h) name) a\<rparr>, h'))))"

text \<open>
  \<open>remove(name)\<close> takes a name or a numeric id; \<open>isNumber(name)\<close>, imported from the
  package \<open>chek\<close>, tells the two apart.
\<close>

datatype name_or_id = Id int | Name pname

text \<open>
  Modelled from the spec: \<open>isValue\<close> is imported from the package \<open>chek\<close>, which is not
  among the sources; the spec counts it among the generic type-checking helpers.  It is
  taken as the check its name says: the value is neither undefined nor null.
\<close>

definition isValue :: "pname \<Rightarrow> bool" where
  "isValue nm = (nm \<noteq> NoName)"

text \<open>
  In \<open>remove\<close> a number is resolved to a name through \<open>getById\<close>, whose result is
  dereferenced at once.
\<close>

definition remove :: "inquir \<Rightarrow> registry \<Rightarrow> name_or_id \<Rightarrow> (inquir \<times> registry) outcome" where
  "remove st h arg =
     (case (case arg of
              Id n \<Rightarrow> (case getById st h (Num n) of
                          None \<Rightarrow> Inl TypeError
                        | Some a \<Rightarrow> Inr (p_name (heap st a)))
            | Name nm \<Rightarrow> Inr nm) of
        Inl e \<Rightarrow> Throws e (st, h)
      | Inr name \<Rightarrow>
          (case (if \<not> isValue name
                 then log_message st ''Cannot remove prompt of undefined.''
                 else Returns st) of
             Throws e st1 \<Rightarrow> Throws e (st1, h)
           | Returns st1 \<Rightarrow>
               Returns (st1\<lparr>prompts_map :=
                              map_delete (prompts_map st1) (toNamespace (namespace h) name)\<rparr>, h)))"

fun destroy_each :: "inquir \<Rightarrow> registry \<Rightarrow> addr list \<Rightarrow> (inquir \<times> registry) outcome" where
  "destroy_each st h [] = Returns (st, h)"
| "destroy_each st h (p # ps) =
     (case remove st h (Name (p_name (heap st p))) of
        Returns (st', h') \<Rightarrow> destroy_each st' h' ps
      | Throws e s \<Rightarrow> Throws e s)"

definition destroy :: "inquir \<Rightarrow> registry \<Rightarrow> (inquir \<times> registry) outcome" where
  "destroy st h =
     (case destroy_each st h (getAll st h) of
        Returns (st', h') \<Rightarrow> Returns (st', h'\<lparr>ctr := None\<rparr>)
      | Throws e s \<Rightarrow> Throws e s)"

text \<open>
  The default \<open>Array.prototype.sort\<close>: undefined elements go last, all others are ordered
  by their string renderings.  The sort is stable.
\<close>

fun sort_le :: "jsnum option \<Rightarrow> jsnum option \<Rightarrow> bool" where
  "sort_le None None = True"
| "sort_le None (Some y) = False"
| "sort_le (Some x) None = True"
| "sort_le (Some x) (Some y) = (\<not> str_less (num_to_string y) (num_to_string x))"

fun sort_insert :: "jsnum option \<Rightarrow> jsnum option list \<Rightarrow> jsnum option list" where
  "sort_insert x [] = [x]"
| "sort_insert x (y # ys) = (if sort_le y x then y # sort_insert x ys else x # y # ys)"

definition js_sort :: "jsnum option list \<Rightarrow> jsnum option list" where
  "js_sort xs = foldl (\<lambda>acc x. sort_insert x acc) [] xs"

definition pop :: "jsnum option list \<Rightarrow> jsnum option" where
  "pop xs = (if xs = [] then None else last xs)"

text \<open>
  Modelled from the spec: \<open>toDefault\<close> is imported from \<open>chek\<close>.  It returns its first
  argument when that is a value and the default otherwise; undefined, null and \<open>NaN\<close>
  are not values.  \<open>None\<close> stands for \<open>null\<close> in its result.
\<close>

definition toDefault :: "jsnum option \<Rightarrow> jsnum option \<Rightarrow> jsnum option" where
  "toDefault val def = (case val of Some (Num n) \<Rightarrow> Some (Num n) | _ \<Rightarrow> def)"

definition lastId :: "inquir \<Rightarrow> registry \<Rightarrow> jsnum option" where
  "lastId st h = toDefault (pop (js_sort (map (\<lambda>a. p_id (heap st a)) (getAll st h)))) None"

text \<open>\<open>prompts.forEach((p, i) => methods.add(p.name, p))\<close>.\<close>

fun add_each :: "inquir \<Rightarrow> registry \<Rightarrow> addr list \<Rightarrow> (inquir \<times> registry) outcome" where
  "add_each st h [] = Returns (st, h)"
| "add_each st h (p # ps) =
     (case add st h (p_name (heap st p)) (Some p) of
        Returns (st', h') \<Rightarrow> add_each st' h' ps
      | Throws e s \<Rightarrow> Throws e s)"

definition prompts :: "inquir \<Rightarrow> string \<Rightarrow> addr list option \<Rightarrow> (inquir \<times> registry) outcome" where
  "prompts st ns ps =
     (let h0 = \<lparr>namespace = ns, ctr = None\<rparr>;
          h = h0\<lparr>ctr := toDefault (lastId st h0) (Some (Num (- 1)))\<rparr>
      in case ps of None \<Rightarrow> Returns (st, h) | Some l \<Rightarrow> add_each st h l)"

section \<open>Prompt engine\<close>

record response =
  r_id :: "jsnum option"
  r_name :: pname
  r_type :: "string option"
  r_message :: string
  r_answer :: string
  r_raw :: string
  r_valid :: bool

text \<open>
  \<open>toPromise(fn)\<close> returns \<open>fn\<close> itself when it has a \<open>then\<close>; otherwise it wraps it
  (when its length is below 2) and returns \<open>promisify(fn)\<close>, which is a function.
\<close>

datatype promised = PromisedFn | PromisedThenable settled

definition toPromise :: "validator \<Rightarrow> promised" where
  "toPromise fn = (case fn of ValidateThenable s \<Rightarrow> PromisedThenable s | ValidateFn n \<Rightarrow> PromisedFn)"

text \<open>
  The state of one \<open>prompt(collection)\<close> call is the instance together with the
  \<open>responses\<close> object of the closure.  \<open>promptHandler\<close> receives the question that was
  asked and the answer line.  Calling \<open>then\<close> on a function throws; a settled thenable
  runs the empty \<open>then\<close> callback or the \<open>catch\<close> callback.
\<close>

definition promptHandler ::
  "inquir \<times> response list \<Rightarrow> addr \<Rightarrow> string \<Rightarrow> (inquir \<times> response list) outcome" where
  "promptHandler s prompt answer =
     (let st = fst s; responses = snd s; q = heap st prompt;
          validate = toPromise (case p_validate q of None \<Rightarrow> ValidateFn 0 | Some v \<Rightarrow> v)
      in case validate of
           PromisedFn \<Rightarrow> Throws TypeError (st, responses)
         | PromisedThenable (Resolves val) \<Rightarrow> Returns (st, responses)
         | PromisedThenable (Rejects err) \<Rightarrow>
             (case setDelim (logger st ERROR err) of
                Returns st' \<Rightarrow> Returns (st', responses)
              | Throws e st' \<Rightarrow> Throws e (st', responses)))"

text \<open>
  \<open>prompt(collection)\<close> up to the first question being asked; a \<open>Throws\<close> here is the
  rejection of the promise the method returns.  The result carries the question bound to
  the handler.
\<close>

definition prompt :: "inquir \<Rightarrow> string \<Rightarrow> (inquir \<times> response list \<times> addr option) outcome" where
  "prompt st collection =
     (let st1 = (if \<not> initialized st then init st else st) in
      case prompts st1 collection None of
        Throws e (st2, coll) \<Rightarrow> Throws e (st2, [], None)
      | Returns (st2, coll) \<Rightarrow>
          (case getById st2 coll (Num 0) of
             None \<Rightarrow> Throws TypeError (st2, [], None)
           | Some p \<Rightarrow>
               if \<not> rl st2 then Throws TypeError (st2, [], Some p)
               else Returns (emit [RlQuestion (p_message (heap st2 p))] st2, [], Some p)))"

section \<open>Masked input\<close>

record keypress =
  k_name :: "string option"
  k_ctrl :: bool

text \<open>The variables of one \<open>mask\<close> call that its handlers close over.\<close>

record mask_state =
  m_prompt :: "string option"
  m_mask :: string
  chars :: string
  lastKey :: "keypress option"

definition toggleListeners :: "inquir \<Rightarrow> bool \<Rightarrow> inquir" where
  "toggleListeners st enable =
     (if \<not> enable then emit [StdinRemoveListener ''data'', StdinRemoveListener ''keypress''] st
      else emit [StdinOn ''data'', StdinOn ''keypress''] st)"

definition keypressHandler :: "mask_state \<Rightarrow> keypress option \<Rightarrow> mask_state" where
  "keypressHandler ms k = ms\<lparr>lastKey := k\<rparr>"

definition inputHandler ::
  "inquir \<times> mask_state \<Rightarrow> string \<Rightarrow> (inquir \<times> mask_state) outcome" where
  "inputHandler s input =
     (let st = fst s; ms = snd s in
      case lastKey ms of
        None \<Rightarrow> Throws TypeError (st, ms)
      | Some k \<Rightarrow>
          (let key = (if k_ctrl k then ''ctrl''
                      else (case k_name k of None \<Rightarrow> [] | Some n \<Rightarrow> n));
               ms1 = ms\<lparr>lastKey := None\<rparr>
           in if key = ''return'' \<or> key = ''ctrl'' then
                Returns (toggleListeners st False, ms1\<lparr>m_prompt := None, chars := []\<rparr>)
              else
                (case m_prompt ms1 of
                   None \<Rightarrow> Returns (st, ms1)
                 | Some p \<Rightarrow>
                     if p = [] then Returns (st, ms1)
                     else
                       (let cs = (if key = ''backspace''
                                  then slice0 (chars ms1) (int (length (chars ms1)) - 2)
                                  else chars ms1 @ input);
                            ms2 = ms1\<lparr>chars := cs\<rparr>
                        in case clearLine st False of
                             Throws e st' \<Rightarrow> Throws e (st', ms2)
                           | Returns st' \<Rightarrow>
                               Returns (emit [OutputWrite (p @ repeat (m_mask ms2) (length cs))] st',
                                        ms2)))))"

text \<open>
  \<open>mask(prompt, mask, fn)\<close>: the mask character is \<open>*\<close> unless a non-empty string is
  given (a callback in its place counts as none).
\<close>

definition mask ::
  "inquir \<Rightarrow> string option \<Rightarrow> string option \<Rightarrow> (inquir \<times> mask_state) outcome" where
  "mask st prompt_text mask_arg =
     (let m = (case mask_arg of None \<Rightarrow> ''*'' | Some c \<Rightarrow> if c = [] then ''*'' else c);
          st0 = emit [OpenStdin] st;
          ms = \<lparr>m_prompt = prompt_text, m_mask = m, chars = [], lastKey = None\<rparr>
      in case prompt_text of
           None \<Rightarrow> Returns (toggleListeners st0 False, ms)
         | Some p \<Rightarrow>
             if p = [] then Returns (toggleListeners st0 False, ms)
             else
               (let st1 = toggleListeners st0 True in
                if \<not> rl st1 then Throws TypeError (st1, ms)
                else Returns (emit [RlQuestion p] st1, ms)))"

section \<open>Sequences of calls and sample states\<close>


text \<open>The id found on the definition object of a call once the call has returned.\<close>

definition added_id :: "inquir \<Rightarrow> pname \<Rightarrow> addr option \<Rightarrow> jsnum option" where
  "added_id st name p =
     (case (case name of NameObj a \<Rightarrow> Some a | _ \<Rightarrow> p) of
        None \<Rightarrow> None
      | Some a \<Rightarrow> p_id (heap st a))"

text \<open>
  A sequence of \<open>add\<close> calls made one after the other through one handle, together with
  the ids they assigned; it stops at the first call that throws.
\<close>

fun add_seq ::
  "inquir \<Rightarrow> registry \<Rightarrow> (pname \<times> addr option) list
     \<Rightarrow> jsnum option list \<times> (inquir \<times> registry) outcome" where
  "add_seq st h [] = ([], Returns (st, h))"
| "add_seq st h (c # cs) =
     (case add st h (fst c) (snd c) of
        Throws e s \<Rightarrow> ([], Throws e s)
      | Returns s \<Rightarrow>
          (let r = add_seq (fst s) (snd s) cs
           in (added_id (fst s) (fst c) (snd c) # fst r, snd r)))"

text \<open>The instance \<open>new Inquir()\<close> on a terminal, as the constructor leaves it.\<close>

definition fresh :: inquir where
  "fresh =
     \<lparr>options = (extend_obj (\<lambda>k. Undefined) DEFAULTS)(''delim'' := Str ''inquir> ''),
      initialized = False, eventsEnabled = False, prompts_map = [], rl = False,
      heap = (\<lambda>a. new_prompt), isTTY = True, trace = []\<rparr>"

text \<open>The same instance with definition objects allocated at the given addresses.\<close>

definition with_objects :: "inquir \<Rightarrow> (addr \<times> prompt) list \<Rightarrow> inquir" where
  "with_objects st objs = st\<lparr>heap := foldl (\<lambda>hp ap. hp(fst ap := snd ap)) (heap st) objs\<rparr>"

definition question :: "string \<Rightarrow> validator option \<Rightarrow> prompt" where
  "question msg v = new_prompt\<lparr>p_message := msg, p_validate := v\<rparr>"

definition state_of :: "'a outcome \<Rightarrow> 'a" where
  "state_of r = (case r of Returns s \<Rightarrow> s | Throws e s \<Rightarrow> s)"

text \<open>
  The handle \<open>prompts('ns')\<close> returns on the new instance, and the instance after
  \<open>add('a', o)\<close> through it, \<open>o\<close> being the object at address 0.
\<close>

definition ns_handle :: registry where
  "ns_handle = \<lparr>namespace = ''ns'', ctr = Some (Num (- 1))\<rparr>"

definition one_question :: inquir where
  "one_question = fst (state_of (add fresh ns_handle (NameStr ''a'') (Some 0)))"

text \<open>The handle a second \<open>prompts('ns')\<close> returns once that question is stored.\<close>

definition ns_handle_again :: registry where
  "ns_handle_again = \<lparr>namespace = ''ns'', ctr = Some (Num 0)\<rparr>"


text \<open>
  Eleven questions \<open>q0\<close>, ..., \<open>q10\<close> added through \<open>prompts('ns')\<close> on the new
  instance.
\<close>

definition eleven_calls :: "(pname \<times> addr option) list" where
  "eleven_calls = map (\<lambda>i. (NameStr (''q'' @ nat_to_string i), Some i)) [0..<11]"

definition eleven_questions :: inquir where
  "eleven_questions = fst (state_of (snd (add_seq fresh ns_handle eleven_calls)))"

text \<open>
  The new instance after \<open>prompts('ab').add('x', o)\<close>, and handles for the namespaces
  \<open>a\<close> and \<open>AB\<close>.
\<close>

definition ab_handle :: registry where
  "ab_handle = \<lparr>namespace = ''ab'', ctr = Some (Num (- 1))\<rparr>"

definition ab_question :: inquir where
  "ab_question = fst (state_of (add fresh ab_handle (NameStr ''x'') (Some 0)))"

definition a_handle :: registry where
  "a_handle = \<lparr>namespace = ''a'', ctr = Some (Num (- 1))\<rparr>"

definition AB_handle :: registry where
  "AB_handle = \<lparr>namespace = ''AB'', ctr = Some (Num (- 1))\<rparr>"

text \<open>
  Keystrokes in masked mode: each is a \<open>keypress\<close> event followed by the \<open>data\<close> event
  carrying the typed text.
\<close>

fun keystrokes ::
  "inquir \<times> mask_state \<Rightarrow> (keypress \<times> string) list \<Rightarrow> (inquir \<times> mask_state) outcome" where
  "keystrokes s [] = Returns s"
| "keystrokes s (ks # rest) =
     (case inputHandler (fst s, keypressHandler (snd s) (Some (fst ks))) (snd ks) of
        Returns s' \<Rightarrow> keystrokes s' rest
      | Throws e s' \<Rightarrow> Throws e s')"

definition letter :: "string \<Rightarrow> keypress \<times> string" where
  "letter c = (\<lparr>k_name = Some c, k_ctrl = False\<rparr>, c)"

definition backspace :: "keypress \<times> string" where
  "backspace = (\<lparr>k_name = Some ''backspace'', k_ctrl = False\<rparr>, [char_of (127::nat)])"

text \<open>The initialised new instance once \<open>mask('Password: ')\<close> has been called.\<close>

definition masking :: "inquir \<times> mask_state" where
  "masking = state_of (mask (init fresh) (Some ''Password: '') None)"

text \<open>
  The new instance with one question \<open>name\<close> registered in the namespace \<open>ns\<close>, its
  \<open>validate\<close> being the given value, and that instance once \<open>prompt('ns')\<close> has asked the
  question.
\<close>

definition is_question :: "effect \<Rightarrow> bool" where
  "is_question e = (case e of RlQuestion m \<Rightarrow> True | _ \<Rightarrow> False)"

definition name_question :: "validator option \<Rightarrow> inquir" where
  "name_question v =
     fst (state_of (add (with_objects fresh [(0, question ''Name'' v)]) ns_handle
                      (NameStr ''name'') (Some 0)))"

definition asked :: "validator option \<Rightarrow> inquir" where
  "asked v = fst (state_of (prompt (name_question v) ''ns''))"

section \<open>Basic facts\<close>

lemma startsWith_iff: "startsWith c line \<longleftrightarrow> (\<exists>r. c = line @ r)"
  unfolding startsWith_def
  by (metis append_eq_conv_conj append_take_drop_id)

lemma extend_obj_single: "extend_obj t [(k, v)] = t(k := v)"
  by (simp add: extend_obj_def)

lemma toLowerCase_Inquir: "toLowerCase ''Inquir'' = ''inquir''"
  by code_simp

lemma Inquir_fresh: "Inquir [] True = Inr fresh"
  by (simp add: Inquir_def fresh_def Let_def extend_obj_def DEFAULTS_def toLowerCase_Inquir)

section \<open>Completion resolver: fixed lists\<close>

text \<open>
  Claim C7.  For every input line, the resolver built from an absent completion source
  or from an empty fixed list returns no completions together with the line unchanged;
  the resolver built from a fixed list returns exactly the candidates that start with the
  line, in their order, together with the line.  For the source \<open>add, remove, list\<close> and
  the line \<open>a\<close> the candidates are \<open>add\<close> alone.
\<close>

theorem completion_fixed_list:
  "completionHandler NoCompleter line = Returned [] line
   \<and> completionHandler (CompleterList []) line = Returned [] line
   \<and> completionHandler (CompleterList cs) line
       = Returned (filter (\<lambda>c. \<exists>r. c = line @ r) cs) line
   \<and> completionHandler (CompleterList [''add'', ''remove'', ''list'']) ''a''
       = Returned [''add''] ''a''"
  by (simp add: completionHandler_def completerSync_def filter_comps_def
        startsWith_iff [symmetric])
     (simp add: startsWith_def)

theorem completion_fixed_list_witness:
  "completionHandler (CompleterList [''add'', ''remove'', ''list'']) ''re''
     = Returned (filter (\<lambda>c. \<exists>r. c = ''re'' @ r) [''add'', ''remove'', ''list'']) ''re''
   \<and> completionHandler NoCompleter ''re'' = Returned [] ''re''"
  using completion_fixed_list [of "''re''" "[''add'', ''remove'', ''list'']"] by simp

section \<open>Setting and reading options\<close>

text \<open>
  Claim C10.  After \<open>setOption(k, v)\<close> the call \<open>getOption(k)\<close> returns \<open>v\<close>, and
  \<open>getOption(k')\<close> for every other key \<open>k'\<close> returns what it returned before.
\<close>

theorem setOption_getOption:
  "getOption (setOption st (Key k) v) k = v
   \<and> (k' \<noteq> k \<longrightarrow> getOption (setOption st (Key k) v) k' = getOption st k')"
  by (simp add: getOption_def setOption_def extend_obj_single)

theorem setOption_getOption_witness:
  "getOption (setOption fresh (Key ''colorize'') (Bool False)) ''colorize'' = Bool False
   \<and> getOption (setOption fresh (Key ''colorize'') (Bool False)) ''name'' = Str ''Inquir''"
  using setOption_getOption [of fresh "''colorize''" "Bool False" "''name''"]
  by (simp add: getOption_def fresh_def extend_obj_def DEFAULTS_def)

section \<open>Registry: the ids assigned by add\<close>





lemma lastId_empty: "getAll st h = [] \<Longrightarrow> lastId st h = None"
  by (simp add: lastId_def js_sort_def pop_def toDefault_def)

lemma lastId_cases: "lastId st h = None \<or> (\<exists>i. lastId st h = Some (Num i))"
  by (simp add: lastId_def toDefault_def split: option.splits jsnum.splits)

lemma prompts_None:
  "prompts st ns None
     = Returns (st, \<lparr>namespace = ns,
                     ctr = toDefault (lastId st \<lparr>namespace = ns, ctr = None\<rparr>)
                             (Some (Num (- 1)))\<rparr>)"
  by (simp add: prompts_def Let_def)


lemma getAll_fresh: "getAll fresh h = []"
  by (simp add: getAll_def fresh_def map_filter_simps)

lemma prompts_fresh: "prompts fresh ''ns'' None = Returns (fresh, ns_handle)"
  by (simp add: prompts_None lastId_empty [OF getAll_fresh] toDefault_def ns_handle_def)













section \<open>Registry: what getAll returns\<close>

lemma toNamespace_inject:
  "toNamespace ns (NameStr x) = toNamespace ns' (NameStr x) \<Longrightarrow> ns = ns'"
  by (simp add: toNamespace_def name_string_def)

lemma prompts_seeded_by_other_namespace:
  "prompts ab_question ''a'' None = Returns (ab_question, a_handle\<lparr>ctr := Some (Num 0)\<rparr>)"
proof -
  have "lastId ab_question \<lparr>namespace = ''a'', ctr = None\<rparr> = Some (Num 0)" by code_simp
  then show ?thesis by (simp add: prompts_None toDefault_def a_handle_def)
qed

text \<open>
  Claim C3 says that \<open>getAll()\<close> returns the definitions stored under its own namespace
  and none of any other, a namespace it is a prefix or a case variant of included.  In
  the code the filter is a case-insensitive prefix test on the key, without the \<open>:\<close>
  separator that \<open>get\<close> and \<open>exists\<close> use.  With one question \<open>x\<close> stored under \<open>ab\<close>,
  the registries \<open>a\<close> and \<open>AB\<close> hold nothing (\<open>get\<close> and \<open>exists\<close> find no \<open>x\<close>), and yet
  \<open>getAll()\<close> of each returns the definition stored under \<open>ab\<close>.
\<close>

theorem getAll_other_namespaces:
  "prompts_map ab_question = [(''ab:x'', 0)]
   \<and> getAll ab_question a_handle = [0]
   \<and> getAll ab_question AB_handle = [0]
   \<and> get ab_question a_handle ''x'' = None
   \<and> exists ab_question AB_handle ''x'' = False"
  by code_simp

section \<open>Registry: destroy, lastId, remove\<close>

lemma add_without_definition:
  "s \<noteq> [] \<Longrightarrow>
   add st h (NameStr s) None = Throws TypeError (st, h\<lparr>ctr := Some (plus_one (ctr h))\<rparr>)"
  by (simp add: add_def Let_def)

lemma reacquired_after_destroy:
  "(case destroy one_question ns_handle_again of
      Returns s \<Rightarrow> ctr (snd (state_of (prompts (fst s) ''ns'' None)))
    | Throws e s \<Rightarrow> None)
   = Some (Num (- 1))"
  by code_simp

text \<open>
  Claim C4 says that the \<open>add\<close> following \<open>destroy()\<close> assigns id 0.  \<open>destroy\<close> sets the
  counter to \<open>undefined\<close>, and \<open>undefined + 1\<close> is \<open>NaN\<close>: after \<open>add('a', o)\<close> and
  \<open>destroy()\<close> the namespace is empty, the counter is undefined, and \<open>add('b', o')\<close>
  through the same handle assigns the id \<open>NaN\<close>.
\<close>

theorem destroy_then_add:
  "(case destroy one_question ns_handle_again of
      Returns s \<Rightarrow> (prompts_map (fst s), ctr (snd s),
                     fst (add_seq (fst s) (snd s) [(NameStr ''b'', Some 1)]))
    | Throws e s \<Rightarrow> (prompts_map (fst s), ctr (snd s), []))
   = ([], None, [Some NaN])"
  by code_simp

text \<open>
  Claim C5 says that \<open>lastId()\<close> returns the numerically highest id present, 10 for a
  registry holding the ids 0 to 10.  The ids are sorted with the default comparator,
  which orders them as strings, so that 9 comes last: for the registry holding the ids
  0 to 10 \<open>lastId()\<close> returns 9.
\<close>

theorem lastId_eleven:
  "map (\<lambda>a. p_id (heap eleven_questions a)) (getAll eleven_questions ns_handle)
     = map (\<lambda>i. Some (Num i)) [0, 1, 2, 3, 4, 5, 6, 7, 8, 9, 10]
   \<and> lastId eleven_questions ns_handle = Some (Num 9)"
  by code_simp

lemma remove_absent_id:
  "getById st h (Num n) = None \<Longrightarrow> remove st h (Id n) = Throws TypeError (st, h)"
  by (simp add: remove_def)

lemma getById_absent: "getById one_question ns_handle_again (Num 5) = None"
  by code_simp

text \<open>
  Claim C6 says that \<open>remove(id)\<close> for an id that is not present logs a message, does not
  throw and returns the handle.  \<open>getById\<close> returns null for such an id and the read of
  its \<open>name\<close> throws before anything is logged: with the single question of id 0 stored,
  \<open>remove(5)\<close> throws a TypeError and leaves the instance, its trace included, as it was.
\<close>

theorem remove_absent_throws:
  "remove one_question ns_handle_again (Id 5)
     = Throws TypeError (one_question, ns_handle_again)"
  by (rule remove_absent_id [OF getById_absent])

section \<open>Masked input: keystrokes\<close>

lemma emit_emit: "emit es (emit ds st) = emit (ds @ es) st"
  by (simp add: emit_def)

lemma slice0_minus2: "slice0 cs (int (length cs) - 2) = take (length cs - 2) cs"
proof -
  have a: "nat (int (length cs) - 2) = length cs - 2" by arith
  have b: "int (length cs) - 2 < 0 \<Longrightarrow> length cs - 2 = 0" by arith
  have c: "int (length cs) - 2 < 0
             \<Longrightarrow> nat (max (int (length cs) + (int (length cs) - 2)) 0) = 0"
    by arith
  have d: "\<not> int (length cs) - 2 < 0
             \<Longrightarrow> min (int (length cs) - 2) (int (length cs)) = int (length cs) - 2"
    by arith
  show ?thesis
  proof (cases "int (length cs) - 2 < 0")
    case True
    note c' = c [OF True] and b' = b [OF True]
    from True show ?thesis
      unfolding slice0_def Let_def by (simp only: if_True c' b' take_0)
  next
    case False
    note d' = d [OF False]
    from False show ?thesis
      unfolding slice0_def Let_def by (simp only: if_False d' a)
  qed
qed

lemma inputHandler_backspace:
  assumes "lastKey ms = Some k" "\<not> k_ctrl k" "k_name k = Some ''backspace''"
    "m_prompt ms = Some p" "p \<noteq> []"
  shows "inputHandler (st, ms) input
     = Returns (emit [ReadlineClearLine 0, ReadlineCursorTo 0,
                      OutputWrite (p @ repeat (m_mask ms) (length (chars ms) - 2))] st,
                ms\<lparr>lastKey := None, chars := take (length (chars ms) - 2) (chars ms)\<rparr>)"
proof -
  have m: "min (length (chars ms)) (length (chars ms) - 2) = length (chars ms) - 2" by simp
  show ?thesis
    using assms
    by (simp add: inputHandler_def Let_def clearLine_def emit_emit slice0_minus2 m)
qed

lemma inputHandler_append:
  assumes "lastKey ms = Some k" "\<not> k_ctrl k" "k_name k = Some n"
    "n \<noteq> ''return''" "n \<noteq> ''ctrl''" "n \<noteq> ''backspace''"
    "m_prompt ms = Some p" "p \<noteq> []"
  shows "inputHandler (st, ms) input
     = Returns (emit [ReadlineClearLine 0, ReadlineCursorTo 0,
                      OutputWrite (p @ repeat (m_mask ms) (length (chars ms @ input)))] st,
                ms\<lparr>lastKey := None, chars := chars ms @ input\<rparr>)"
  using assms by (simp add: inputHandler_def Let_def clearLine_def emit_emit)

text \<open>
  Claim C9 says that a backspace shrinks the buffer by exactly one character.  The
  handler keeps \<open>chars.slice(0, chars.length - 2)\<close>: after the keys \<open>a\<close>, \<open>b\<close>, \<open>c\<close> the
  buffer is \<open>abc\<close> and three mask characters are drawn; one backspace leaves the buffer
  \<open>a\<close> and draws a single mask character.
\<close>

theorem backspace_removes_two:
  "(case keystrokes masking [letter ''a'', letter ''b'', letter ''c''] of
      Returns s \<Rightarrow> (chars (snd s), last (trace (fst s)))
    | Throws e s \<Rightarrow> ([], OpenStdin))
     = (''abc'', OutputWrite ''Password: ***'')
   \<and> (case keystrokes masking [letter ''a'', letter ''b'', letter ''c'', backspace] of
      Returns s \<Rightarrow> (chars (snd s), last (trace (fst s)))
    | Throws e s \<Rightarrow> ([], OpenStdin))
     = (''a'', OutputWrite ''Password: *'')"
  by code_simp

section \<open>Prompt engine: the answer handler\<close>

lemma promptHandler_function_validator:
  "p_validate (heap st q) = None \<or> p_validate (heap st q) = Some (ValidateFn n) \<Longrightarrow>
   promptHandler (st, rs) q answer = Throws TypeError (st, rs)"
  by (auto simp add: promptHandler_def toPromise_def Let_def)

lemma asked_validate:
  "p_validate (heap (asked v) 0) = v"
  by (cases v) (simp_all add: asked_def name_question_def prompt_def add_def Let_def state_of_def
      with_objects_def question_def ns_handle_def plus_one_def init_def emit_def
      toggleExceptions_def fresh_def prompts_def getById_def split: outcome.splits option.splits list.splits)

lemma promptHandler_thenable:
  assumes "rl st"
  shows "(p_validate (heap st q) = Some (ValidateThenable (Rejects err)) \<longrightarrow>
            promptHandler (st, rs) q answer
              = Returns (emit [if truthy (options st ''onLog'')
                               then OnLog [LEvent ERROR, LStr err]
                               else ConsoleLog [[Ansi (Str ''ERROR'') (StrArray [''red'', ''dim'']),
                                                 Plain '':''],
                                                [Plain err]],
                               RlSetPrompt [Ansi (options st ''delim'') (options st ''delimStyle'')],
                               RlPrompt] st, rs))
       \<and> (p_validate (heap st q) = Some (ValidateThenable (Resolves v)) \<longrightarrow>
            promptHandler (st, rs) q answer = Returns (st, rs))"
proof -
  let ?log = "if truthy (options st ''onLog'')
              then OnLog [LEvent ERROR, LStr err]
              else ConsoleLog [[Ansi (Str ''ERROR'') (StrArray [''red'', ''dim'']), Plain '':''],
                               [Plain err]]"
  let ?delim = "RlSetPrompt [Ansi (options st ''delim'') (options st ''delimStyle'')]"
  have r: "rl (logger st ERROR err)" and o: "options (logger st ERROR err) = options st"
    using assms by (simp_all add: logger_def emit_def)
  have l: "logger st ERROR err = emit [?log] st"
    by (simp add: logger_def colorize_def EventState_name_def styles_def)
  have s: "setDelim (logger st ERROR err) = Returns (emit [?delim, RlPrompt] (logger st ERROR err))"
    using r o by (simp add: setDelim_def colorize_def)
  have e: "emit [?delim, RlPrompt] (logger st ERROR err) = emit [?log, ?delim, RlPrompt] st"
    by (subst l) (simp add: emit_emit)
  show ?thesis
    by (simp add: promptHandler_def toPromise_def Let_def s e)
qed

text \<open>
  Claim C1 says that when the \<open>validate\<close> handler of a question rejects an answer, one
  error is logged, the delimiter is redrawn and the question is presented again, and
  that an accepted answer records one Response.  A \<open>validate\<close> handler is a function, and
  the handler supplied when there is none is a function too.  \<open>toPromise\<close> returns the
  promisified function without calling it, and \<open>promptHandler\<close> calls \<open>then\<close> on that
  function.  With one question registered, \<open>prompt('ns')\<close> asks it once and binds it to
  the handler; on the answer the handler throws a TypeError, be the question declared
  with a \<open>validate\<close> function of two arguments or with none, and the instance and the
  responses are what they were: nothing is logged, the delimiter is not redrawn, the
  question is not asked again and no Response is recorded.
\<close>

theorem promptHandler_throws:
  "snd (state_of (prompt (name_question (Some (ValidateFn 2))) ''ns'')) = ([], Some 0)
   \<and> filter is_question (trace (asked (Some (ValidateFn 2)))) = [RlQuestion ''Name'']
   \<and> promptHandler (asked (Some (ValidateFn 2)), []) 0 ''x''
       = Throws TypeError (asked (Some (ValidateFn 2)), [])
   \<and> promptHandler (asked None, []) 0 ''x'' = Throws TypeError (asked None, [])"
proof -
  have a: "snd (state_of (prompt (name_question (Some (ValidateFn 2))) ''ns'')) = ([], Some 0)"
    by code_simp
  have b: "filter is_question (trace (asked (Some (ValidateFn 2)))) = [RlQuestion ''Name'']"
    by code_simp
  have c: "promptHandler (asked (Some (ValidateFn 2)), []) 0 ''x''
             = Throws TypeError (asked (Some (ValidateFn 2)), [])"
    by (rule promptHandler_function_validator) (simp add: asked_validate)
  have d: "promptHandler (asked None, []) 0 ''x'' = Throws TypeError (asked None, [])"
    by (rule promptHandler_function_validator) (simp add: asked_validate)
  from a b c d show ?thesis by simp
qed

section \<open>Listening without a handler\<close>





end
